theory Spec2Isabelle
  imports Main
begin

unbundle bit_operations_syntax

section \<open>Errors and the outside world\<close>

text \<open>
  A Go \<open>error\<close> value is a message, possibly wrapping another error (\<open>%w\<close>).
  A run-time panic (a slice expression out of range) ends the command; it is a value of
  the same type, so that it shows up in the result of the model.
\<close>

datatype error = Errorf string | Wrapf string error | Panic string

text \<open>The text of an error, as \<open>%v\<close> prints it.\<close>

fun error_Error :: "error \<Rightarrow> string" where
  "error_Error (Errorf msg) = msg"
| "error_Error (Wrapf msg e) = msg @ '': '' @ error_Error e"
| "error_Error (Panic msg) = ''panic: '' @ msg"

text \<open>
  The calls of package \<open>os\<close> that change the file system. The program only ever makes
  the first two; \<open>Rename\<close> is there so that "write to a temporary file, then rename" can
  be stated.
\<close>

datatype os_call = MkdirAll string | WriteFile string string | Rename string string

record Time =
  time_String :: string
  time_RFC3339Nano :: string

text \<open>
  The world a command runs in: the files (path to content), the paths on which the
  operating system refuses every call, the working directory, the clock (the successive
  readings of \<open>time.Now()\<close>), the calls made so far (oldest first) and what was printed.
\<close>

record world =
  files :: "string \<Rightarrow> string option"
  denied :: "string \<Rightarrow> bool"
  getwd :: "error + string"
  clock :: "nat \<Rightarrow> Time"
  ticks :: nat
  calls :: "os_call list"
  stdout :: "string list"

definition os_ReadFile :: "string \<Rightarrow> world \<Rightarrow> error + string" where
  "os_ReadFile name s =
     (if denied s name then Inl (Errorf ''permission denied'')
      else case files s name of
             None \<Rightarrow> Inl (Errorf ''no such file or directory'')
           | Some data \<Rightarrow> Inr data)"

definition os_Open :: "string \<Rightarrow> world \<Rightarrow> error + string" where
  "os_Open name s = os_ReadFile name s"

definition io_ReadAll :: "string \<Rightarrow> error + string" where
  "io_ReadAll file = Inr file"

definition os_WriteFile :: "string \<Rightarrow> string \<Rightarrow> world \<Rightarrow> (error + unit) \<times> world" where
  "os_WriteFile name data s =
     (if denied s name then (Inl (Errorf ''permission denied''), s)
      else (Inr (), s\<lparr>files := (files s)(name \<mapsto> data), calls := calls s @ [WriteFile name data]\<rparr>))"

definition os_MkdirAll :: "string \<Rightarrow> world \<Rightarrow> (error + unit) \<times> world" where
  "os_MkdirAll path s =
     (if denied s path then (Inl (Errorf ''permission denied''), s)
      else (Inr (), s\<lparr>calls := calls s @ [MkdirAll path]\<rparr>))"

definition time_Now :: "world \<Rightarrow> Time \<times> world" where
  "time_Now s = (clock s (ticks s), s\<lparr>ticks := Suc (ticks s)\<rparr>)"

definition fmt_Print :: "string \<Rightarrow> world \<Rightarrow> world" where
  "fmt_Print line s = s\<lparr>stdout := stdout s @ [line]\<rparr>"

section \<open>Library functions the program calls\<close>

subsection \<open>crypto/sha256 and encoding/hex\<close>

text \<open>
  SHA-256 (FIPS 180-4) on 32-bit words, held as natural numbers below \<open>2^32\<close> with the
  wrap-around of every addition written out.
\<close>

type_synonym u32 = nat

definition add32 :: "u32 \<Rightarrow> u32 \<Rightarrow> u32" where
  "add32 x y = (x + y) mod 4294967296"

definition rotr :: "nat \<Rightarrow> u32 \<Rightarrow> u32" where
  "rotr n x = (x div 2 ^ n) + (x mod 2 ^ n) * 2 ^ (32 - n)"

definition Ch :: "u32 \<Rightarrow> u32 \<Rightarrow> u32 \<Rightarrow> u32" where
  "Ch x y z = (x AND y) XOR ((4294967295 - x) AND z)"

definition Maj :: "u32 \<Rightarrow> u32 \<Rightarrow> u32 \<Rightarrow> u32" where
  "Maj x y z = (x AND y) XOR (x AND z) XOR (y AND z)"

definition bsig0 :: "u32 \<Rightarrow> u32" where
  "bsig0 x = rotr 2 x XOR rotr 13 x XOR rotr 22 x"

definition bsig1 :: "u32 \<Rightarrow> u32" where
  "bsig1 x = rotr 6 x XOR rotr 11 x XOR rotr 25 x"

definition ssig0 :: "u32 \<Rightarrow> u32" where
  "ssig0 x = rotr 7 x XOR rotr 18 x XOR (x div 2 ^ 3)"

definition ssig1 :: "u32 \<Rightarrow> u32" where
  "ssig1 x = rotr 17 x XOR rotr 19 x XOR (x div 2 ^ 10)"

definition K256 :: "u32 list" where
  "K256 = [
   1116352408, 1899447441, 3049323471, 3921009573, 961987163, 1508970993, 2453635748, 2870763221,
   3624381080, 310598401, 607225278, 1426881987, 1925078388, 2162078206, 2614888103, 3248222580,
   3835390401, 4022224774, 264347078, 604807628, 770255983, 1249150122, 1555081692, 1996064986,
   2554220882, 2821834349, 2952996808, 3210313671, 3336571891, 3584528711, 113926993, 338241895,
   666307205, 773529912, 1294757372, 1396182291, 1695183700, 1986661051, 2177026350, 2456956037,
   2730485921, 2820302411, 3259730800, 3345764771, 3516065817, 3600352804, 4094571909, 275423344,
   430227734, 506948616, 659060556, 883997877, 958139571, 1322822218, 1537002063, 1747873779,
   1955562222, 2024104815, 2227730452, 2361852424, 2428436474, 2756734187, 3204031479, 3329325298]"

type_synonym sha_state = "u32 \<times> u32 \<times> u32 \<times> u32 \<times> u32 \<times> u32 \<times> u32 \<times> u32"

definition H256 :: sha_state where
  "H256 = (1779033703, 3144134277, 1013904242, 2773480762,
           1359893119, 2600822924, 528734635, 1541459225)"

fun be32 :: "string \<Rightarrow> u32 list" where
  "be32 (a # b # c # d # rest) =
     (((of_char a * 256 + of_char b) * 256 + of_char c) * 256 + of_char d) # be32 rest"
| "be32 _ = []"

text \<open>The message schedule; the words computed so far are kept newest first.\<close>

fun schedule :: "u32 list \<Rightarrow> u32 list \<Rightarrow> u32 list" where
  "schedule [] rws = rev rws"
| "schedule (k # ks) rws =
     schedule ks
       (add32 (add32 (ssig1 (rws ! 1)) (rws ! 6)) (add32 (ssig0 (rws ! 14)) (rws ! 15)) # rws)"

fun step :: "u32 \<Rightarrow> u32 \<Rightarrow> sha_state \<Rightarrow> sha_state" where
  "step t1 t2 (a, b, c, d, e, f, g, h) = (add32 t1 t2, a, b, c, add32 d t1, e, f, g)"

fun round256 :: "u32 \<Rightarrow> u32 \<Rightarrow> sha_state \<Rightarrow> sha_state" where
  "round256 k w (a, b, c, d, e, f, g, h) =
     step (add32 (add32 (add32 h (bsig1 e)) (add32 (Ch e f g) k)) w) (add32 (bsig0 a) (Maj a b c))
       (a, b, c, d, e, f, g, h)"

fun rounds :: "u32 list \<Rightarrow> u32 list \<Rightarrow> sha_state \<Rightarrow> sha_state" where
  "rounds (k # ks) (w # ws) st = rounds ks ws (round256 k w st)"
| "rounds _ _ st = st"

fun add_state :: "sha_state \<Rightarrow> sha_state \<Rightarrow> sha_state" where
  "add_state (a, b, c, d, e, f, g, h) (a', b', c', d', e', f', g', h') =
     (add32 a a', add32 b b', add32 c c', add32 d d',
      add32 e e', add32 f f', add32 g g', add32 h h')"

definition block :: "sha_state \<Rightarrow> string \<Rightarrow> sha_state" where
  "block hs chunk =
     add_state hs (rounds K256 (schedule (drop 16 K256) (rev (be32 chunk))) hs)"

function blocks :: "sha_state \<Rightarrow> string \<Rightarrow> sha_state" where
  "blocks hs bs = (if bs = [] then hs else blocks (block hs (take 64 bs)) (drop 64 bs))"
  by pat_completeness auto
termination
  by (relation "measure (\<lambda>(hs, bs). length bs)") auto

declare blocks.simps [simp del]

fun state_words :: "sha_state \<Rightarrow> u32 list" where
  "state_words (a, b, c, d, e, f, g, h) = [a, b, c, d, e, f, g, h]"

definition be_bytes4 :: "nat \<Rightarrow> string" where
  "be_bytes4 n = [char_of (n div 16777216), char_of (n div 65536), char_of (n div 256), char_of n]"

definition be_bytes8 :: "nat \<Rightarrow> string" where
  "be_bytes8 n = be_bytes4 (n div 4294967296) @ be_bytes4 n"

definition pad :: "string \<Rightarrow> string" where
  "pad m = m @ [CHR 0x80] @ replicate ((119 - length m mod 64) mod 64) (CHR 0x00)
             @ be_bytes8 (8 * length m)"

definition sha256_Sum256 :: "string \<Rightarrow> string" where
  "sha256_Sum256 m = concat (map be_bytes4 (state_words (blocks H256 (pad m))))"

definition hexdigit :: "nat \<Rightarrow> char" where
  "hexdigit n = ''0123456789abcdef'' ! n"

definition hex_EncodeToString :: "string \<Rightarrow> string" where
  "hex_EncodeToString bs =
     concat (map (\<lambda>b. [hexdigit (of_char b div 16), hexdigit (of_char b mod 16)]) bs)"

subsection \<open>strconv and fmt\<close>

definition is_digit :: "char \<Rightarrow> bool" where
  "is_digit c = (48 \<le> (of_char c :: nat) \<and> (of_char c :: nat) \<le> 57)"

definition digit_char :: "nat \<Rightarrow> char" where
  "digit_char d = ''0123456789'' ! d"

text \<open>The value of a run of decimal digits, most significant first.\<close>

definition dec_value :: "string \<Rightarrow> nat" where
  "dec_value ds = foldl (\<lambda>n c. 10 * n + (of_char c - 48)) 0 ds"

fun dec_digits :: "nat \<Rightarrow> string" where
  "dec_digits n = (if n < 10 then [digit_char n] else dec_digits (n div 10) @ [digit_char (n mod 10)])"

declare dec_digits.simps [simp del]

text \<open>\<open>strconv.Itoa\<close>, which is also what the verb \<open>%d\<close> prints.\<close>

definition strconv_Itoa :: "int \<Rightarrow> string" where
  "strconv_Itoa i = (if i < 0 then CHR ''-'' # dec_digits (nat (- i)) else dec_digits (nat i))"

text \<open>
  \<open>strconv.Atoi\<close> on a 64-bit platform: an optional sign, then at least one decimal digit
  and nothing else; a value outside the range of \<open>int\<close> is an error. The program only
  asks whether the error is \<open>nil\<close>, so the error carries the kind of failure and not the
  whole text of Go's \<open>NumError\<close>.
\<close>

definition strconv_Atoi :: "string \<Rightarrow> error + int" where
  "strconv_Atoi s =
     (let neg = (s \<noteq> [] \<and> hd s = CHR ''-'');
          ds = (if s \<noteq> [] \<and> (hd s = CHR ''-'' \<or> hd s = CHR ''+'') then tl s else s)
      in if ds = [] \<or> \<not> list_all is_digit ds then Inl (Errorf ''invalid syntax'')
         else if (neg \<and> dec_value ds > 9223372036854775808) \<or>
                 (\<not> neg \<and> dec_value ds \<ge> 9223372036854775808)
           then Inl (Errorf ''value out of range'')
         else Inr (if neg then - int (dec_value ds) else int (dec_value ds)))"

subsection \<open>unicode/utf8\<close>

text \<open>
  \<open>utf8.DecodeRune\<close> on a byte \<open>b0\<close> and the bytes after it: the rune, and how many of the
  following bytes belong to it. A byte that starts no well-formed encoding (a stray
  continuation byte, an overlong or truncated form, a surrogate, a value above
  \<open>U+10FFFF\<close>) is the rune \<open>U+FFFD\<close> of width one.
\<close>

definition is_cont :: "nat \<Rightarrow> bool" where
  "is_cont b = (128 \<le> b \<and> b \<le> 191)"

definition utf8_rune :: "nat \<Rightarrow> nat list \<Rightarrow> nat \<times> nat" where
  "utf8_rune b0 bs =
     (if b0 < 128 then (b0, 0)
      else if 194 \<le> b0 \<and> b0 \<le> 223 then
        (case bs of
           b1 # rest \<Rightarrow>
             if is_cont b1 then ((b0 - 192) * 64 + (b1 - 128), 1) else (65533, 0)
         | [] \<Rightarrow> (65533, 0))
      else if 224 \<le> b0 \<and> b0 \<le> 239 then
        (case bs of
           b1 # b2 # rest \<Rightarrow>
             if (if b0 = 224 then 160 else 128) \<le> b1 \<and> b1 \<le> (if b0 = 237 then 159 else 191)
                \<and> is_cont b2
               then ((b0 - 224) * 4096 + (b1 - 128) * 64 + (b2 - 128), 2)
             else (65533, 0)
         | _ \<Rightarrow> (65533, 0))
      else if 240 \<le> b0 \<and> b0 \<le> 244 then
        (case bs of
           b1 # b2 # b3 # rest \<Rightarrow>
             if (if b0 = 240 then 144 else 128) \<le> b1 \<and> b1 \<le> (if b0 = 244 then 143 else 191)
                \<and> is_cont b2 \<and> is_cont b3
               then ((b0 - 240) * 262144 + (b1 - 128) * 4096 + (b2 - 128) * 64 + (b3 - 128), 3)
             else (65533, 0)
         | _ \<Rightarrow> (65533, 0))
      else (65533, 0))"

text \<open>A string read rune by rune: each rune with the bytes it was decoded from.\<close>

type_synonym rune = "nat \<times> string"

function utf8_runes :: "string \<Rightarrow> rune list" where
  "utf8_runes [] = []"
| "utf8_runes (c # cs) =
     (case utf8_rune (of_char c) (map of_char (take 3 cs)) of
        (r, k) \<Rightarrow> (r, c # take k cs) # utf8_runes (drop k cs))"
  by pat_completeness auto
termination
  by (relation "measure length") auto

text \<open>What \<open>utf8.AppendRune\<close> writes for a rune that was read: its bytes, or the encoding
  of \<open>U+FFFD\<close>.\<close>

definition rune_bytes :: "rune \<Rightarrow> string" where
  "rune_bytes r = (if fst r = 65533 then [CHR 0xEF, CHR 0xBF, CHR 0xBD] else snd r)"

subsection \<open>fmt.Sscanf\<close>

text \<open>
  \<open>fmt.Sscanf(header, "%s %d", &objType, &size)\<close>, rune by rune as package \<open>fmt\<close> reads.
  \<open>%s\<close> skips leading spaces and takes the runes up to the next space; the space of the
  format matches any run of spaces; \<open>%d\<close> skips spaces and takes an optional sign and
  decimal digits. A newline in the input is never skipped by \<open>Sscanf\<close>; input after the
  number is ignored; running out of input where an operand should start is \<open>io.EOF\<close>.
\<close>

definition isSpace :: "nat \<Rightarrow> bool" where
  "isSpace r =
     ((9 \<le> r \<and> r \<le> 13) \<or> r = 32 \<or> r = 133 \<or> r = 160 \<or> r = 5760 \<or>
      (8192 \<le> r \<and> r \<le> 8202) \<or> r = 8232 \<or> r = 8233 \<or> r = 8239 \<or> r = 8287 \<or> r = 12288)"

fun SkipSpace :: "rune list \<Rightarrow> error + rune list" where
  "SkipSpace [] = Inr []"
| "SkipSpace (r # rs) =
     (if fst r = 10 then Inl (Errorf ''unexpected newline'')
      else if isSpace (fst r) then SkipSpace rs
      else Inr (r # rs))"

definition is_digit_rune :: "rune \<Rightarrow> bool" where
  "is_digit_rune r = (48 \<le> fst r \<and> fst r \<le> 57)"

definition scanInt :: "rune list \<Rightarrow> error + int" where
  \<open>scanInt inp =
     (case SkipSpace inp of
        Inl e \<Rightarrow> Inl e
      | Inr rest \<Rightarrow>
          if rest = [] then Inl (Errorf ''EOF'')
          else
            let sign = (if fst (hd rest) = 43 \<or> fst (hd rest) = 45 then [hd rest] else []);
                body = (if sign = [] then rest else tl rest);
                digits = takeWhile is_digit_rune body;
                tok = concat (map rune_bytes (sign @ digits))
            in if body = [] then Inl (Errorf ''EOF'')
               else if digits = [] then Inl (Errorf ''expected integer'')
               else (case strconv_Atoi tok of
                       Inl e \<Rightarrow> Inl (Errorf (''strconv.ParseInt: parsing "'' @ tok @
                                   ''": value out of range''))
                     | Inr n \<Rightarrow> Inr n))\<close>

definition fmt_Sscanf_s_d :: "string \<Rightarrow> error + (string \<times> int)" where
  "fmt_Sscanf_s_d inp =
     (case SkipSpace (utf8_runes inp) of
        Inl e \<Rightarrow> Inl e
      | Inr rest \<Rightarrow>
          if rest = [] then Inl (Errorf ''EOF'')
          else
            let word = takeWhile (\<lambda>r. \<not> isSpace (fst r)) rest;
                rest1 = dropWhile (\<lambda>r. \<not> isSpace (fst r)) rest
            in if rest1 \<noteq> [] \<and> fst (hd rest1) = 10
                 then Inl (Errorf ''newline in input does not match format'')
               else (case scanInt (dropWhile (\<lambda>r. isSpace (fst r) \<and> fst r \<noteq> 10) rest1) of
                       Inl e \<Rightarrow> Inl e
                     | Inr n \<Rightarrow> Inr (concat (map rune_bytes word), n)))"

text \<open>\<open>fmt.Sprintf("%s %d\000", objType, n)\<close>: the header of a stored object.\<close>

definition fmt_Sprintf_header :: "string \<Rightarrow> int \<Rightarrow> string" where
  "fmt_Sprintf_header objType n = objType @ '' '' @ strconv_Itoa n @ [CHR 0x00]"

subsection \<open>strings and path/filepath (Unix paths, separator \<open>/\<close>)\<close>

fun strings_Split :: "string \<Rightarrow> char \<Rightarrow> string list" where
  "strings_Split [] sep = [[]]"
| "strings_Split (c # cs) sep =
     (if c = sep then [] # strings_Split cs sep
      else (case strings_Split cs sep of
              [] \<Rightarrow> [[c]]
            | w # ws \<Rightarrow> (c # w) # ws))"

fun strings_Join :: "string list \<Rightarrow> string \<Rightarrow> string" where
  "strings_Join [] sep = []"
| "strings_Join [e] sep = e"
| "strings_Join (e # es) sep = e @ sep @ strings_Join es sep"

text \<open>
  The components of a path that \<open>filepath.Clean\<close> keeps: empty ones and \<open>.\<close> vanish,
  \<open>..\<close> removes the component before it (at the root it vanishes, at the start of a
  relative path it stays). The components kept so far are held last first.
\<close>

fun clean_elems :: "bool \<Rightarrow> string list \<Rightarrow> string list \<Rightarrow> string list" where
  "clean_elems rooted [] out = rev out"
| "clean_elems rooted (c # cs) out =
     (if c = [] \<or> c = ''.'' then clean_elems rooted cs out
      else if c = ''..'' then
        (case out of
           [] \<Rightarrow> if rooted then clean_elems rooted cs [] else clean_elems rooted cs [''..'']
         | p # ps \<Rightarrow> if p = ''..'' then clean_elems rooted cs (''..'' # p # ps)
                     else clean_elems rooted cs ps)
      else clean_elems rooted cs (c # out))"

definition filepath_Clean :: "string \<Rightarrow> string" where
  "filepath_Clean path =
     (if path = [] then ''.''
      else
        let rooted = (hd path = CHR ''/'');
            body = strings_Join (clean_elems rooted (strings_Split path (CHR ''/'')) []) ''/''
        in if rooted then CHR ''/'' # body
           else if body = [] then ''.'' else body)"

definition filepath_Join :: "string list \<Rightarrow> string" where
  "filepath_Join elem =
     (case dropWhile (\<lambda>e. e = []) elem of
        [] \<Rightarrow> []
      | es \<Rightarrow> filepath_Clean (strings_Join es ''/''))"

definition filepath_Dir :: "string \<Rightarrow> string" where
  "filepath_Dir path = filepath_Clean (rev (dropWhile (\<lambda>c. c \<noteq> CHR ''/'') (rev path)))"

definition filepath_Abs :: "string \<Rightarrow> world \<Rightarrow> error + string" where
  "filepath_Abs path s =
     (if path \<noteq> [] \<and> hd path = CHR ''/'' then Inr (filepath_Clean path)
      else case getwd s of
             Inl e \<Rightarrow> Inl e
           | Inr wd \<Rightarrow> Inr (filepath_Join [wd, path]))"

text \<open>The non-empty components of a cleaned path.\<close>

definition path_elems :: "string \<Rightarrow> string list" where
  "path_elems path = filter (\<lambda>e. e \<noteq> []) (strings_Split path (CHR ''/''))"

fun common_prefix :: "string list \<Rightarrow> string list \<Rightarrow> nat" where
  "common_prefix (x # xs) (y # ys) = (if x = y then Suc (common_prefix xs ys) else 0)"
| "common_prefix _ _ = 0"

text \<open>
  \<open>filepath.Rel\<close>: both paths are cleaned; equal paths give \<open>.\<close>; an absolute and a
  relative path cannot be related; otherwise the common leading components are dropped,
  each component left of the base becomes \<open>..\<close>, and what is left of the target follows.
\<close>

definition filepath_Rel :: "string \<Rightarrow> string \<Rightarrow> error + string" where
  "filepath_Rel basepath targpath =
     (let base = filepath_Clean basepath;
          targ = filepath_Clean targpath
      in if targ = base then Inr ''.''
         else
           let base1 = (if base = ''.'' then [] else base);
               baseSlashed = (base1 \<noteq> [] \<and> hd base1 = CHR ''/'');
               targSlashed = (targ \<noteq> [] \<and> hd targ = CHR ''/'');
               n = common_prefix (path_elems base1) (path_elems targ);
               b = drop n (path_elems base1);
               t = drop n (path_elems targ)
           in if baseSlashed \<noteq> targSlashed
                then Inl (Errorf (''Rel: can't make '' @ targpath @ '' relative to '' @ basepath))
              else if b \<noteq> [] \<and> hd b = ''..''
                then Inl (Errorf (''Rel: can't make '' @ targpath @ '' relative to '' @ basepath))
              else Inr (strings_Join (replicate (length b) ''..'' @ t) ''/''))"

section \<open>The data model (package repo)\<close>

text \<open>\<open>Config\<close>; the nested struct \<open>Core\<close> is flattened.\<close>

record Config =
  Layout :: string
  AutoCRLF :: string
  Types :: "string list"

record Repository =
  Path :: string
  Config :: Config

record TreeEntry =
  Name :: string
  Type :: string
  Object :: string
  Size :: int
  AssetID :: int
  AssetType :: string

record Tree =
  Entries :: "TreeEntry list"

text \<open>\<open>Commit\<close>; \<open>Timestamp\<close> holds the RFC 3339 text of the instant.\<close>

record Commit =
  ID :: string
  Author :: string
  Timestamp :: string
  Message :: string
  Branch :: string
  Parent :: string
  Tree :: string

text \<open>What the program passes to \<open>writeObject\<close> as \<open>obj interface{}\<close>.\<close>

datatype object = TreeObj Tree | CommitObj Commit

subsection \<open>encoding/json on the two object types\<close>

text \<open>
  \<open>json.Marshal\<close> of a \<open>Tree\<close> or a \<open>Commit\<close>: the fields in the order of the struct,
  under their tag names, a field tagged \<open>omitempty\<close> left out when it is zero or empty.
  Strings are quoted as \<open>encoding/json\<close> (Go 1.22 and later) quotes them: the quote, the
  backslash and the control characters with a short form get it, the other control
  characters and \<open><\<close>, \<open>>\<close>, \<open>&\<close> become \<open>\u00XX\<close>, a byte that is not well-formed UTF-8
  becomes \<open>\ufffd\<close>, the separators \<open>U+2028\<close> and \<open>U+2029\<close> are escaped, and everything else
  is copied. The slice of entries is never \<open>nil\<close> in the program, so an empty one is
  \<open>[]\<close>. Marshalling these types does not fail.
\<close>

definition json_escape :: "rune \<Rightarrow> string" where
  "json_escape r =
     (if fst r < 128 then
        (if fst r = 34 then [CHR 0x5C, CHR 0x22]
         else if fst r = 92 then [CHR 0x5C, CHR 0x5C]
         else if fst r = 8 then [CHR 0x5C, CHR ''b'']
         else if fst r = 12 then [CHR 0x5C, CHR ''f'']
         else if fst r = 10 then [CHR 0x5C, CHR ''n'']
         else if fst r = 13 then [CHR 0x5C, CHR ''r'']
         else if fst r = 9 then [CHR 0x5C, CHR ''t'']
         else if fst r < 32 \<or> fst r = 60 \<or> fst r = 62 \<or> fst r = 38
           then [CHR 0x5C, CHR ''u'', CHR ''0'', CHR ''0'',
                 hexdigit (fst r div 16), hexdigit (fst r mod 16)]
         else snd r)
      else if fst r = 65533 \<and> length (snd r) = 1 then [CHR 0x5C] @ ''ufffd''
      else if fst r = 8232 then [CHR 0x5C] @ ''u2028''
      else if fst r = 8233 then [CHR 0x5C] @ ''u2029''
      else snd r)"

definition json_string :: "string \<Rightarrow> string" where
  "json_string str = [CHR 0x22] @ concat (map json_escape (utf8_runes str)) @ [CHR 0x22]"

definition json_TreeEntry :: "TreeEntry \<Rightarrow> string" where
  \<open>json_TreeEntry e =
     ''{"name":'' @ json_string (Name e) @
     '',"type":'' @ json_string (Type e) @
     '',"object":'' @ json_string (Object e) @
     (if Size e = 0 then [] else '',"size":'' @ strconv_Itoa (Size e)) @
     (if AssetID e = 0 then [] else '',"asset_id":'' @ strconv_Itoa (AssetID e)) @
     (if AssetType e = [] then [] else '',"asset_type":'' @ json_string (AssetType e)) @
     ''}''\<close>

definition json_Tree :: "Tree \<Rightarrow> string" where
  \<open>json_Tree t = ''{"entries":['' @ strings_Join (map json_TreeEntry (Entries t)) '','' @ '']}''\<close>

definition json_Commit :: "Commit \<Rightarrow> string" where
  \<open>json_Commit c =
     ''{"id":'' @ json_string (ID c) @
     '',"author":'' @ json_string (Author c) @
     '',"timestamp":'' @ [CHR 0x22] @ Timestamp c @ [CHR 0x22] @
     '',"message":'' @ json_string (Message c) @
     '',"branch":'' @ json_string (Branch c) @
     (if Parent c = [] then [] else '',"parent":'' @ json_string (Parent c)) @
     '',"tree":'' @ json_string (Tree c) @
     ''}''\<close>

fun json_Marshal :: "object \<Rightarrow> error + string" where
  "json_Marshal (TreeObj t) = Inr (json_Tree t)"
| "json_Marshal (CommitObj c) = Inr (json_Commit c)"

section \<open>The repository (package repo)\<close>

text \<open>
  Every function that touches the file system takes the world and returns its result
  together with the world it leaves behind, also when it fails: what was written before
  an error stays written.
\<close>

definition objectPath :: "Repository \<Rightarrow> string \<Rightarrow> string" where
  "objectPath r hashStr =
     filepath_Join [Path r, ''.rdb'', ''objects'', take 2 hashStr, drop 2 hashStr]"

definition writeObject :: "Repository \<Rightarrow> string \<Rightarrow> object \<Rightarrow> world \<Rightarrow> (error + string) \<times> world" where
  "writeObject r objType obj s =
     (case json_Marshal obj of
        Inl e \<Rightarrow> (Inl (Wrapf ''failed to marshal object'' e), s)
      | Inr data \<Rightarrow>
          let hashStr = hex_EncodeToString (sha256_Sum256 data);
              objPath = objectPath r hashStr
          in case os_MkdirAll (filepath_Dir objPath) s of
               (Inl e, s1) \<Rightarrow> (Inl (Wrapf ''failed to create object directory'' e), s1)
             | (Inr u, s1) \<Rightarrow>
                 let content = fmt_Sprintf_header objType (int (length data)) @ data
                 in case os_WriteFile objPath content s1 of
                      (Inl e, s2) \<Rightarrow> (Inl (Wrapf ''failed to write object'' e), s2)
                    | (Inr u, s2) \<Rightarrow> (Inr hashStr, s2))"

definition WriteObject :: "Repository \<Rightarrow> string \<Rightarrow> object \<Rightarrow> world \<Rightarrow> (error + string) \<times> world" where
  "WriteObject r objType obj s = writeObject r objType obj s"

definition generateID :: "world \<Rightarrow> string \<times> world" where
  "generateID s =
     (case time_Now s of
        (now, s1) \<Rightarrow> (take 16 (hex_EncodeToString (sha256_Sum256 (time_String now))), s1))"

definition GenerateID :: "world \<Rightarrow> string \<times> world" where
  "GenerateID s = generateID s"

definition createInitialCommit :: "Repository \<Rightarrow> world \<Rightarrow> (error + unit) \<times> world" where
  "createInitialCommit r s =
     (case writeObject r ''tree'' (TreeObj \<lparr>Entries = []\<rparr>) s of
        (Inl e, s1) \<Rightarrow> (Inl (Wrapf ''failed to write tree object'' e), s1)
      | (Inr treeHash, s1) \<Rightarrow>
          (case generateID s1 of
             (newID, s2) \<Rightarrow>
               (case time_Now s2 of
                  (now, s3) \<Rightarrow>
                    let commit = \<lparr>ID = newID, Author = ''RDB <rdb@localhost>'',
                                  Timestamp = time_RFC3339Nano now, Message = ''Initial commit'',
                                  Branch = ''main'', Parent = [], Tree = treeHash\<rparr>
                    in case writeObject r ''commit'' (CommitObj commit) s3 of
                         (Inl e, s4) \<Rightarrow> (Inl (Wrapf ''failed to write commit object'' e), s4)
                       | (Inr commitHash, s4) \<Rightarrow>
                           let headPath = filepath_Join [Path r, ''.rdb'', ''refs'', ''heads'', ''main'']
                           in case os_WriteFile headPath commitHash s4 of
                                (Inl e, s5) \<Rightarrow> (Inl (Wrapf ''failed to write HEAD'' e), s5)
                              | (Inr u, s5) \<Rightarrow> (Inr (), s5))))"

text \<open>
  \<open>GetCurrentBranch\<close>: the slice expression \<open>head[16:]\<close> panics when \<open>head\<close> has fewer
  than 16 bytes; the test before it only asks for more than 5.
\<close>

definition GetCurrentBranch :: "Repository \<Rightarrow> world \<Rightarrow> error + string" where
  "GetCurrentBranch r s =
     (let headPath = filepath_Join [Path r, ''.rdb'', ''HEAD'']
      in case os_ReadFile headPath s of
           Inl e \<Rightarrow> Inl (Wrapf ''failed to read HEAD'' e)
         | Inr head \<Rightarrow>
             if length head > 5 \<and> take 5 head = ''ref: '' then
               (if length head < 16 then Inl (Panic ''slice bounds out of range'')
                else Inr (drop 16 head))
             else Inl (Errorf ''HEAD is not pointing to a branch''))"

definition GetCurrentCommit :: "Repository \<Rightarrow> world \<Rightarrow> error + string" where
  "GetCurrentCommit r s =
     (case GetCurrentBranch r s of
        Inl e \<Rightarrow> Inl e
      | Inr branch \<Rightarrow>
          let refPath = filepath_Join [Path r, ''.rdb'', ''refs'', ''heads'', branch]
          in case os_ReadFile refPath s of
               Inl e \<Rightarrow> Inl (Wrapf ''failed to read branch ref'' e)
             | Inr data \<Rightarrow> Inr data)"

text \<open>The loop of \<open>readObject\<close> that looks for the first zero byte.\<close>

fun nullIndex :: "string \<Rightarrow> nat option" where
  "nullIndex [] = None"
| "nullIndex (b # bs) =
     (if b = CHR 0x00 then Some 0
      else case nullIndex bs of None \<Rightarrow> None | Some i \<Rightarrow> Some (Suc i))"

text \<open>
  \<open>readObject\<close>: \<open>hash[:2]\<close> panics on a hash shorter than two bytes. The hash is used
  to find the file and for nothing else.
\<close>

definition readObject :: "Repository \<Rightarrow> string \<Rightarrow> world \<Rightarrow> error + (string \<times> string)" where
  "readObject r hash s =
     (if length hash < 2 then Inl (Panic ''slice bounds out of range'')
      else
        let objPath = objectPath r hash
        in case os_Open objPath s of
             Inl e \<Rightarrow> Inl (Wrapf ''failed to open object'' e)
           | Inr file \<Rightarrow>
               (case io_ReadAll file of
                  Inl e \<Rightarrow> Inl (Wrapf ''failed to read object'' e)
                | Inr data \<Rightarrow>
                    (case nullIndex data of
                       None \<Rightarrow> Inl (Errorf ''invalid object format: no null separator found'')
                     | Some i \<Rightarrow>
                         (case fmt_Sscanf_s_d (take i data) of
                            Inl e \<Rightarrow> Inl (Wrapf ''failed to parse object header'' e)
                          | Inr (objType, size') \<Rightarrow>
                              let objData = drop (Suc i) data
                              in if int (length objData) \<noteq> size'
                                   then Inl (Errorf (''object size mismatch: expected '' @
                                          strconv_Itoa size' @ '', got '' @
                                          strconv_Itoa (int (length objData))))
                                 else Inr (objType, objData)))))"

definition ReadObject :: "Repository \<Rightarrow> string \<Rightarrow> world \<Rightarrow> error + (string \<times> string)" where
  "ReadObject r hash s = readObject r hash s"

section \<open>The commands (package cmd)\<close>

subsection \<open>commit\<close>

text \<open>
  \<open>runCommit\<close> from the point where the repository \<open>r\<close> has been opened (line 71 on);
  the flags \<open>commitMessage\<close>, \<open>commitAuthor\<close> and \<open>amend\<close> are arguments.
\<close>

definition runCommit :: "Repository \<Rightarrow> string \<Rightarrow> string \<Rightarrow> bool \<Rightarrow> world \<Rightarrow> (error + unit) \<times> world" where
  "runCommit r commitMessage commitAuthor amend s =
     (case GetCurrentBranch r s of
        Inl e \<Rightarrow> (Inl (Wrapf ''failed to get current branch'' e), s)
      | Inr branch \<Rightarrow>
          (case (if amend then GetCurrentCommit r s else Inr []) of
             Inl e \<Rightarrow> (Inl (Wrapf ''failed to get current commit'' e), s)
           | Inr parentCommit \<Rightarrow>
               let author = (if commitAuthor = [] then ''RDB <rdb@localhost>'' else commitAuthor)
               in case GenerateID s of
                    (newID, s1) \<Rightarrow>
                      (case time_Now s1 of
                         (now, s2) \<Rightarrow>
                           let commit0 = \<lparr>ID = newID, Author = author,
                                          Timestamp = time_RFC3339Nano now,
                                          Message = commitMessage, Branch = branch,
                                          Parent = [], Tree = []\<rparr>;
                               commit1 = (if amend \<and> parentCommit \<noteq> []
                                          then commit0\<lparr>Parent := parentCommit\<rparr> else commit0)
                           in case WriteObject r ''tree'' (TreeObj \<lparr>Entries = []\<rparr>) s2 of
                                (Inl e, s3) \<Rightarrow> (Inl (Wrapf ''failed to write tree object'' e), s3)
                              | (Inr treeHash, s3) \<Rightarrow>
                                  let commit2 = commit1\<lparr>Tree := treeHash\<rparr>
                                  in case WriteObject r ''commit'' (CommitObj commit2) s3 of
                                       (Inl e, s4) \<Rightarrow>
                                         (Inl (Wrapf ''failed to write commit object'' e), s4)
                                     | (Inr commitHash, s4) \<Rightarrow>
                                         let refPath = filepath_Join
                                               [Path r, ''.rdb'', ''refs'', ''heads'', branch]
                                         in case os_WriteFile refPath commitHash s4 of
                                              (Inl e, s5) \<Rightarrow>
                                                (Inl (Wrapf ''failed to update branch reference'' e), s5)
                                            | (Inr u, s5) \<Rightarrow>
                                                (Inr (),
                                                 fmt_Print
                                                   ((if amend then ''Amended commit ''
                                                     else ''Created commit '')
                                                    @ take 8 commitHash @ [CHR 0x0A])
                                                   s5))))"

subsection \<open>add\<close>

definition assetTypeMap :: "(int \<times> string) list" where
  "assetTypeMap = [
     (1000624, ''flash_image''),
     (1030002, ''string''),
     (1010042, ''loading_screen''),
     (1000083, ''xml_treasure''),
     (1000087, ''xml_zone_transition''),
     (1000090, ''xml_resurrection''),
     (1000635, ''usm_video''),
     (1000636, ''image''),
     (1070003, ''playfield''),
     (1010013, ''map''),
     (1010210, ''image''),
     (1010211, ''image''),
     (1000623, ''text''),
     (1066603, ''texture''),
     (1020001, ''unknown''),
     (1020002, ''sound_effect''),
     (1020005, ''music''),
     (1020006, ''sound_tone''),
     (1010207, ''particle_effect''),
     (1000010, ''file_index''),
     (1000007, ''physx_xml''),
     (1020003, ''dialog_audio''),
     (1010008, ''misc_image'')]"

definition getAssetTypeFromID :: "int \<Rightarrow> string" where
  "getAssetTypeFromID id' =
     (case map_of assetTypeMap id' of
        Some assetType \<Rightarrow> assetType
      | None \<Rightarrow> ''unknown'')"

definition isAssetPath :: "string \<Rightarrow> string \<Rightarrow> bool" where
  "isAssetPath repoPath filePath =
     (case filepath_Rel repoPath filePath of
        Inl e \<Rightarrow> False
      | Inr relPath \<Rightarrow>
          let parts = strings_Split relPath (CHR ''/'')
          in if length parts < 2 then False
             else if parts ! 0 \<noteq> ''assets'' then False
             else (case strconv_Atoi (parts ! 1) of
                     Inl e \<Rightarrow> False
                   | Inr n \<Rightarrow> True))"

text \<open>
  The inner loop of \<open>runAdd\<close> (lines 259 to 271): every match of a pattern is resolved
  and either kept or skipped with a line on the output. \<open>allPaths\<close> is the slice
  the loop appends to.
\<close>

fun runAdd_filter :: "Repository \<Rightarrow> string list \<Rightarrow> string list \<Rightarrow> world \<Rightarrow> string list \<times> world" where
  "runAdd_filter r [] allPaths s = (allPaths, s)"
| "runAdd_filter r (match # matches) allPaths s =
     (case filepath_Abs match s of
        Inl e \<Rightarrow>
          runAdd_filter r matches allPaths
            (fmt_Print (''Warning: could not resolve path '' @ match @ '': '' @ error_Error e
                        @ [CHR 0x0A]) s)
      | Inr absMatch \<Rightarrow>
          if isAssetPath (Path r) absMatch
            then runAdd_filter r matches (allPaths @ [match]) s
          else runAdd_filter r matches allPaths
                 (fmt_Print (''Skipping non-asset path: '' @ match @ [CHR 0x0A]) s))"

text \<open>
  The outer loop of \<open>runAdd\<close> (lines 247 to 272). \<open>glob\<close> stands for \<open>filepath.Glob\<close> on
  the working tree: the matches of each pattern, or the error of a malformed pattern,
  which is the only thing that ends the loop early.
\<close>

fun runAdd_collect :: "Repository \<Rightarrow> (string \<Rightarrow> error + string list) \<Rightarrow> string list \<Rightarrow> string list \<Rightarrow> world
    \<Rightarrow> (error + string list) \<times> world" where
  "runAdd_collect r glob [] allPaths s = (Inr allPaths, s)"
| "runAdd_collect r glob (pattern # args) allPaths s =
     (case glob pattern of
        Inl e \<Rightarrow> (Inl (Wrapf (''invalid glob pattern '' @ pattern) e), s)
      | Inr matches \<Rightarrow>
          if length matches = 0
            then runAdd_collect r glob args allPaths
                   (fmt_Print (''Warning: no files match pattern '' @ pattern @ [CHR 0x0A]) s)
          else (case runAdd_filter r matches allPaths s of
                  (allPaths1, s1) \<Rightarrow> runAdd_collect r glob args allPaths1 s1))"

section \<open>Vocabulary of the statements\<close>

text \<open>
  A kind tag as the program writes it (\<open>tree\<close>, \<open>commit\<close>) and as the tree entries name
  it (\<open>blob\<close>, \<open>asset\<close>): a non-empty word of printable ASCII characters other than
  the space.
\<close>

definition plain_word :: "string \<Rightarrow> bool" where
  "plain_word w = (w \<noteq> [] \<and> list_all (\<lambda>c. 33 \<le> (of_char c :: nat) \<and> (of_char c :: nat) \<le> 126) w)"

text \<open>The bytes \<open>writeObject\<close> stores for a payload, and the name it stores them under.\<close>

definition stored :: "string \<Rightarrow> string \<Rightarrow> string" where
  "stored objType data = fmt_Sprintf_header objType (int (length data)) @ data"

definition hash_of :: "string \<Rightarrow> string" where
  "hash_of data = hex_EncodeToString (sha256_Sum256 data)"

text \<open>A raw commit hash: lower-case hexadecimal digits only.\<close>

definition is_hex :: "string \<Rightarrow> bool" where
  "is_hex h = list_all (\<lambda>c. c \<in> set ''0123456789abcdef'') h"

text \<open>
  What "written to a temporary location, then renamed into place" asks of the calls a
  command makes for the file \<open>path\<close>: some other file is renamed to \<open>path\<close>, and \<open>path\<close>
  itself is never the target of a write.
\<close>

definition renames_to :: "string \<Rightarrow> os_call \<Rightarrow> bool" where
  "renames_to path c = (case c of Rename tmp new \<Rightarrow> new = path \<and> tmp \<noteq> path | _ \<Rightarrow> False)"

definition writes_to :: "string \<Rightarrow> os_call \<Rightarrow> bool" where
  "writes_to path c = (case c of WriteFile name data \<Rightarrow> name = path | _ \<Rightarrow> False)"

definition written_atomically :: "os_call list \<Rightarrow> string \<Rightarrow> bool" where
  "written_atomically cs path = (list_ex (renames_to path) cs \<and> \<not> list_ex (writes_to path) cs)"

section \<open>A repository to run the commands on\<close>

definition repo0 :: Repository where
  "repo0 = \<lparr>Path = ''/repo'', Config = \<lparr>Layout = ''tree'', AutoCRLF = ''true'', Types = [''text'', ''audio'']\<rparr>\<rparr>"

definition clock0 :: "nat \<Rightarrow> Time" where
  "clock0 n = \<lparr>time_String = ''2024-05-01 10:00:0'' @ dec_digits n @ '' +0000 UTC'',
               time_RFC3339Nano = ''2024-05-01T10:00:0'' @ dec_digits n @ ''Z''\<rparr>"

definition world0 :: world where
  "world0 = \<lparr>files = Map.empty, denied = (\<lambda>p. False), getwd = Inr ''/repo'', clock = clock0,
             ticks = 0, calls = [], stdout = []\<rparr>"

text \<open>The repository after \<open>Init\<close>: \<open>HEAD\<close> names the branch \<open>main\<close>, which holds the initial commit.\<close>

definition world_head :: world where
  "world_head = world0\<lparr>files := [''/repo/.rdb/HEAD'' \<mapsto> ''ref: refs/heads/main'']\<rparr>"

definition world1 :: world where
  "world1 = snd (createInitialCommit repo0 world_head)"

section \<open>Asset types\<close>

lemma distinct_assetTypeMap: "distinct (map fst assetTypeMap)"
  by (simp add: assetTypeMap_def)

text \<open>
  Claim C8. \<open>getAssetTypeFromID\<close> is a total function of the numeric ID: for every ID
  in the table \<open>assetTypeMap\<close> it returns the type the table gives, and for every
  other ID it returns \<open>unknown\<close>; it has no failing branch.
\<close>

theorem getAssetTypeFromID_total:
  "(\<forall>(k, v) \<in> set assetTypeMap. getAssetTypeFromID k = v) \<and>
   (\<forall>k. k \<notin> fst ` set assetTypeMap \<longrightarrow> getAssetTypeFromID k = ''unknown'')"
proof -
  have known: "getAssetTypeFromID k = v" if "(k, v) \<in> set assetTypeMap" for k v
  proof -
    have "map_of assetTypeMap k = Some v"
      using distinct_assetTypeMap that by (rule map_of_is_SomeI)
    then show ?thesis
      unfolding getAssetTypeFromID_def by simp
  qed
  have other: "getAssetTypeFromID k = ''unknown''" if "k \<notin> fst ` set assetTypeMap" for k
  proof -
    have "map_of assetTypeMap k = None"
      using that by (simp only: map_of_eq_None_iff not_False_eq_True)
    then show ?thesis
      unfolding getAssetTypeFromID_def by simp
  qed
  show ?thesis
  proof (intro conjI ballI allI impI)
    fix kv assume m: "kv \<in> set assetTypeMap"
    obtain k v where kv: "kv = (k, v)" by (cases kv)
    from m kv have "getAssetTypeFromID k = v" by (simp only: known)
    with kv show "case kv of (k, v) \<Rightarrow> getAssetTypeFromID k = v"
      by (simp only: prod.case)
  next
    fix k :: int assume "k \<notin> fst ` set assetTypeMap"
    then show "getAssetTypeFromID k = ''unknown''" by (rule other)
  qed
qed

theorem getAssetTypeFromID_total_witness:
  "getAssetTypeFromID 1030002 = ''string'' \<and> getAssetTypeFromID 42 = ''unknown''"
proof -
  have m: "(1030002, ''string'') \<in> set assetTypeMap"
    by (simp add: assetTypeMap_def)
  have a: "getAssetTypeFromID 1030002 = ''string''"
    using getAssetTypeFromID_total [THEN conjunct1, THEN bspec, OF m] by simp
  have n: "42 \<notin> fst ` set assetTypeMap"
    by (simp add: assetTypeMap_def)
  have b: "getAssetTypeFromID 42 = ''unknown''"
    using getAssetTypeFromID_total [THEN conjunct2, THEN spec, THEN mp, OF n] .
  from a b show ?thesis by (rule conjI)
qed

section \<open>HEAD and the current branch\<close>

lemma join_head: "filepath_Join [''/repo'', ''.rdb'', ''HEAD''] = ''/repo/.rdb/HEAD''"
  by (simp add: filepath_Join_def filepath_Clean_def)

text \<open>
  Claim C10. \<open>GetCurrentBranch\<close> is not total: on a \<open>HEAD\<close> file that holds \<open>ref: main\<close>
  (nine bytes, beginning with \<open>ref: \<close>) the test \<open>len(head) > 5\<close> passes and the slice
  \<open>head[16:]\<close> panics.
\<close>

theorem GetCurrentBranch_short_ref_panics:
  "GetCurrentBranch repo0 (world0\<lparr>files := [''/repo/.rdb/HEAD'' \<mapsto> ''ref: main'']\<rparr>)
     = Inl (Panic ''slice bounds out of range'')"
  by (simp add: GetCurrentBranch_def repo0_def world0_def os_ReadFile_def join_head)

section \<open>The object store\<close>

subsection \<open>Decimal numbers and the header of an object\<close>

lemma of_char_digit_char: "d < 10 \<Longrightarrow> (of_char (digit_char d) :: nat) = 48 + d"
proof -
  assume "d < 10"
  then have "d \<in> {0, 1, 2, 3, 4, 5, 6, 7, 8, 9}"
    by auto
  then show ?thesis
    by (auto simp add: digit_char_def)
qed

lemma is_digit_digit_char: "d < 10 \<Longrightarrow> is_digit (digit_char d)"
  by (simp add: is_digit_def of_char_digit_char)

lemma dec_digits_nonempty: "dec_digits n \<noteq> []"
  by (subst dec_digits.simps) simp

lemma dec_digits_all_digits: "list_all is_digit (dec_digits n)"
proof (induction n rule: dec_digits.induct)
  case (1 n)
  show ?case
  proof (cases "n < 10")
    case True
    then show ?thesis by (subst dec_digits.simps) (simp add: is_digit_digit_char)
  next
    case False
    with 1 show ?thesis by (subst dec_digits.simps) (simp add: is_digit_digit_char)
  qed
qed

lemma dec_value_snoc: "dec_value (ds @ [c]) = 10 * dec_value ds + (of_char c - 48)"
  by (simp add: dec_value_def)

lemma dec_value_dec_digits: "dec_value (dec_digits n) = n"
proof (induction n rule: dec_digits.induct)
  case (1 n)
  show ?case
  proof (cases "n < 10")
    case True
    then show ?thesis
      by (subst dec_digits.simps) (simp add: dec_value_def of_char_digit_char)
  next
    case False
    with 1 have "dec_value (dec_digits (n div 10)) = n div 10" by simp
    with False show ?thesis
      by (subst dec_digits.simps) (simp add: dec_value_snoc of_char_digit_char)
  qed
qed


lemma of_char_less_256: "(of_char c :: nat) < 256"
proof -
  have "(of_char c :: nat) mod 256 < 256"
    by (rule mod_less_divisor) simp
  then show ?thesis
    by (simp only: of_char_mod_256)
qed

lemma utf8_rune_ascii: "b < 128 \<Longrightarrow> utf8_rune b bs = (b, 0)"
  by (simp add: utf8_rune_def)

lemma utf8_runes_ascii_append:
  "list_all (\<lambda>c. (of_char c :: nat) < 128) xs \<Longrightarrow>
     utf8_runes (xs @ ys) = map (\<lambda>c. (of_char c, [c])) xs @ utf8_runes ys"
  by (induction xs) (simp_all add: utf8_rune_ascii)

lemma utf8_runes_ascii:
  "list_all (\<lambda>c. (of_char c :: nat) < 128) xs \<Longrightarrow> utf8_runes xs = map (\<lambda>c. (of_char c, [c])) xs"
  using utf8_runes_ascii_append [of xs "[]"] by simp

lemma rune_bytes_ascii: "concat (map rune_bytes (map (\<lambda>c. (of_char c :: nat, [c])) xs)) = xs"
proof (induction xs)
  case Nil
  show ?case by simp
next
  case (Cons c xs)
  have "(of_char c :: nat) < 256"
    by (rule of_char_less_256)
  then have "(of_char c :: nat) \<noteq> 65533"
    by linarith
  then have "rune_bytes (of_char c :: nat, [c]) = [c]"
    by (simp add: rune_bytes_def)
  with Cons show ?case
    by simp
qed

lemma is_digit_range: "is_digit c \<Longrightarrow> 48 \<le> (of_char c :: nat) \<and> (of_char c :: nat) \<le> 57"
  by (simp add: is_digit_def)

lemma is_digit_not_null: "is_digit c \<Longrightarrow> c \<noteq> CHR 0x00"
  by (auto simp add: is_digit_def)

lemma hd_dec_digits_digit: "is_digit (hd (dec_digits n))"
  using dec_digits_all_digits [of n] dec_digits_nonempty [of n]
  by (cases "dec_digits n") simp_all

lemma strconv_Atoi_dec_digits:
  assumes "n < 9223372036854775808"
  shows "strconv_Atoi (dec_digits n) = Inr (int n)"
proof -
  have "is_digit (hd (dec_digits n))"
    by (rule hd_dec_digits_digit)
  then have "hd (dec_digits n) \<noteq> CHR ''-''" "hd (dec_digits n) \<noteq> CHR ''+''"
    by (auto simp add: is_digit_def)
  then show ?thesis
    using assms
    by (simp add: strconv_Atoi_def dec_digits_nonempty dec_digits_all_digits dec_value_dec_digits)
qed

lemma SkipSpace_nonspace: "rs \<noteq> [] \<Longrightarrow> \<not> isSpace (fst (hd rs)) \<Longrightarrow> SkipSpace rs = Inr rs"
  by (cases rs) (auto simp add: isSpace_def)

lemma digit_rune_not_space: "is_digit_rune r \<Longrightarrow> \<not> isSpace (fst r)"
  by (simp add: isSpace_def is_digit_rune_def)

text \<open>A run of digit runes is read as the number it spells.\<close>

lemma scanInt_digits:
  assumes ne: "rs \<noteq> []" and dg: "\<forall>r \<in> set rs. is_digit_rune r"
    and v: "strconv_Atoi (concat (map rune_bytes rs)) = Inr v"
  shows "scanInt rs = Inr v"
proof -
  from ne dg have hd: "is_digit_rune (hd rs)"
    by (cases rs) simp_all
  have sk: "SkipSpace rs = Inr rs"
    by (rule SkipSpace_nonspace [OF ne]) (rule digit_rune_not_space [OF hd])
  from hd have sg: "\<not> (fst (hd rs) = 43 \<or> fst (hd rs) = 45)"
    by (auto simp add: is_digit_rune_def)
  from dg have tw: "takeWhile is_digit_rune rs = rs"
    by (simp add: takeWhile_eq_all_conv)
  show ?thesis
    unfolding scanInt_def
    by (simp add: sk ne sg tw v)
qed

text \<open>A word of runes that are not spaces, one space, and a number.\<close>

lemma Sscanf_word_space_number:
  assumes runes: "utf8_runes inp = word @ sp # num"
    and ne: "word \<noteq> []" and nsp: "\<forall>r \<in> set word. \<not> isSpace (fst r)"
    and sp: "isSpace (fst sp)" "fst sp \<noteq> 10"
    and num: "num \<noteq> []" "\<not> isSpace (fst (hd num))" "scanInt num = Inr v"
  shows "fmt_Sscanf_s_d inp = Inr (concat (map rune_bytes word), v)"
proof -
  let ?R = "word @ sp # num"
  have hdw: "\<not> isSpace (fst (hd ?R))"
    using ne nsp by (cases word) simp_all
  have sk: "SkipSpace ?R = Inr ?R"
    by (rule SkipSpace_nonspace) (use hdw in simp_all)
  have tw: "takeWhile (\<lambda>r. \<not> isSpace (fst r)) ?R = word"
    using nsp sp(1) by (simp add: takeWhile_tail)
  have dw: "dropWhile (\<lambda>r. \<not> isSpace (fst r)) ?R = sp # num"
    using nsp sp(1) by (simp add: dropWhile_append3)
  have dw2: "dropWhile (\<lambda>r. isSpace (fst r) \<and> fst r \<noteq> 10) num = num"
    using num(1,2) by (cases num) simp_all
  show ?thesis
    unfolding fmt_Sscanf_s_d_def
    by (simp add: runes sk tw dw sp dw2 num(3))
qed

lemma plain_word_chars:
  "plain_word w \<Longrightarrow> c \<in> set w \<Longrightarrow> 33 \<le> (of_char c :: nat) \<and> (of_char c :: nat) \<le> 126"
  by (simp add: plain_word_def list_all_iff)

lemma plain_rune_not_space: "33 \<le> r \<Longrightarrow> r \<le> 126 \<Longrightarrow> \<not> isSpace r"
  by (simp add: isSpace_def)

lemma header_ascii:
  assumes "plain_word w"
  shows "list_all (\<lambda>c. (of_char c :: nat) < 128) (w @ CHR '' '' # dec_digits n)"
proof -
  have a: "(of_char c :: nat) < 128" if "c \<in> set w" for c
    using plain_word_chars [OF assms that] by simp
  have b: "(of_char c :: nat) < 128" if "c \<in> set (dec_digits n)" for c
    using dec_digits_all_digits [of n] that by (auto simp add: list_all_iff is_digit_def)
  show ?thesis
    using a b by (auto simp add: list_all_iff)
qed

lemma fmt_Sscanf_header:
  assumes w: "plain_word w" and n: "n < 9223372036854775808"
  shows "fmt_Sscanf_s_d (w @ CHR '' '' # dec_digits n) = Inr (w, int n)"
proof -
  let ?asc = "\<lambda>c. (of_char c :: nat, [c])"
  let ?D = "map ?asc (dec_digits n)"
  let ?W = "map ?asc w"
  have runes: "utf8_runes (w @ CHR '' '' # dec_digits n) = ?W @ ?asc (CHR '' '') # ?D"
    using utf8_runes_ascii [OF header_ascii [OF w, of n]] by simp
  from w have ne: "?W \<noteq> []"
    by (simp add: plain_word_def)
  have nsp: "\<forall>r \<in> set ?W. \<not> isSpace (fst r)"
    using plain_word_chars [OF w] plain_rune_not_space by auto
  have sp: "isSpace (fst (?asc (CHR '' '')))" "fst (?asc (CHR '' '')) \<noteq> 10"
    by (simp_all add: isSpace_def)
  have Dne: "?D \<noteq> []"
    by (simp add: dec_digits_nonempty)
  have dg: "\<forall>r \<in> set ?D. is_digit_rune r"
    using dec_digits_all_digits [of n] by (auto simp add: list_all_iff is_digit_rune_def is_digit_def)
  from Dne dg have "is_digit_rune (hd ?D)"
    by (cases ?D) simp_all
  then have hdD: "\<not> isSpace (fst (hd ?D))"
    by (rule digit_rune_not_space)
  have at: "strconv_Atoi (concat (map rune_bytes ?D)) = Inr (int n)"
    by (simp only: rune_bytes_ascii strconv_Atoi_dec_digits [OF n])
  have si: "scanInt ?D = Inr (int n)"
    by (rule scanInt_digits [OF Dne dg at])
  have "fmt_Sscanf_s_d (w @ CHR '' '' # dec_digits n) = Inr (concat (map rune_bytes ?W), int n)"
    by (rule Sscanf_word_space_number [OF runes ne nsp sp Dne hdD si])
  then show ?thesis
    by (simp only: rune_bytes_ascii)
qed

lemma nullIndex_append:
  "CHR 0x00 \<notin> set hdr \<Longrightarrow> nullIndex (hdr @ CHR 0x00 # rest) = Some (length hdr)"
  by (induction hdr) auto

lemma header_no_null:
  assumes "plain_word w"
  shows "CHR 0x00 \<notin> set (w @ CHR '' '' # dec_digits n)"
proof -
  have "CHR 0x00 \<notin> set w"
    using plain_word_chars [OF assms] by fastforce
  moreover have "CHR 0x00 \<notin> set (dec_digits n)"
    using dec_digits_all_digits [of n] is_digit_not_null by (auto simp add: list_all_iff)
  ultimately show ?thesis by simp
qed

lemma nullIndex_None: "CHR 0x00 \<notin> set data \<Longrightarrow> nullIndex data = None"
  by (induction data) auto

lemma os_Open_file:
  "\<not> denied s name \<Longrightarrow> files s name = Some data \<Longrightarrow> os_Open name s = Inr data"
  by (simp add: os_Open_def os_ReadFile_def)

lemma readObject_no_separator:
  assumes h: "2 \<le> length h" and d: "\<not> denied s (objectPath r h)"
    and f: "files s (objectPath r h) = Some data" and nn: "CHR 0x00 \<notin> set data"
  shows "readObject r h s = Inl (Errorf ''invalid object format: no null separator found'')"
  unfolding readObject_def
  using h by (simp add: os_Open_file [OF d f] io_ReadAll_def nullIndex_None [OF nn])

lemma readObject_separated:
  assumes h: "2 \<le> length h" and d: "\<not> denied s (objectPath r h)"
    and f: "files s (objectPath r h) = Some (hdr @ CHR 0x00 # payload)"
    and nn: "CHR 0x00 \<notin> set hdr"
  shows "readObject r h s =
           (case fmt_Sscanf_s_d hdr of
              Inl e \<Rightarrow> Inl (Wrapf ''failed to parse object header'' e)
            | Inr (objType, n) \<Rightarrow>
                if int (length payload) = n then Inr (objType, payload)
                else Inl (Errorf (''object size mismatch: expected '' @ strconv_Itoa n @
                       '', got '' @ strconv_Itoa (int (length payload)))))"
proof -
  let ?data = "hdr @ CHR 0x00 # payload"
  have ni: "nullIndex ?data = Some (length hdr)"
    by (rule nullIndex_append [OF nn])
  have tk: "take (length hdr) ?data = hdr"
    by simp
  have dr: "drop (Suc (length hdr)) ?data = payload"
    by simp
  have l: "\<not> length h < 2"
    using h by simp
  show ?thesis
    unfolding readObject_def
    by (simp only: l if_False os_Open_file [OF d f] ni tk dr io_ReadAll_def
          sum.case option.case Let_def)
       (simp split: sum.split prod.split)
qed

lemma readObject_header:
  assumes w: "plain_word w" and n: "n < 9223372036854775808"
    and f: "files s (objectPath r h) = Some (fmt_Sprintf_header w (int n) @ payload)"
    and d: "\<not> denied s (objectPath r h)" and h: "2 \<le> length h"
  shows "readObject r h s =
           (if n = length payload then Inr (w, payload)
            else Inl (Errorf (''object size mismatch: expected '' @ strconv_Itoa (int n) @
                   '', got '' @ strconv_Itoa (int (length payload)))))"
proof -
  let ?hdr = "w @ CHR '' '' # dec_digits n"
  have c: "fmt_Sprintf_header w (int n) @ payload = ?hdr @ CHR 0x00 # payload"
    by (simp add: fmt_Sprintf_header_def strconv_Itoa_def)
  have f': "files s (objectPath r h) = Some (?hdr @ CHR 0x00 # payload)"
    using f by (simp only: c)
  show ?thesis
    by (simp only: readObject_separated [OF h d f' header_no_null [OF w]]
          fmt_Sscanf_header [OF w n] sum.case prod.case)
       auto
qed

subsection \<open>Writing, and reading back\<close>

lemma length_be_bytes4: "length (be_bytes4 n) = 4"
  by (simp add: be_bytes4_def)

lemma length_sha256_Sum256: "length (sha256_Sum256 m) = 32"
  by (cases "blocks H256 (pad m)" rule: state_words.cases)
     (simp add: sha256_Sum256_def length_be_bytes4)

lemma length_hex_EncodeToString: "length (hex_EncodeToString bs) = 2 * length bs"
  by (induction bs) (simp_all add: hex_EncodeToString_def)

lemma length_hash_of: "length (hash_of data) = 64"
  by (simp add: hash_of_def length_hex_EncodeToString length_sha256_Sum256)

lemma json_Marshal_total: "\<exists>data. json_Marshal obj = Inr data"
  by (cases obj) simp_all

lemma writeObject_cases:
  assumes "json_Marshal obj = Inr data"
  shows "writeObject r objType obj s =
    (let p = objectPath r (hash_of data) in
     if denied s (filepath_Dir p)
       then (Inl (Wrapf ''failed to create object directory'' (Errorf ''permission denied'')), s)
     else if denied s p
       then (Inl (Wrapf ''failed to write object'' (Errorf ''permission denied'')),
             s\<lparr>calls := calls s @ [MkdirAll (filepath_Dir p)]\<rparr>)
     else (Inr (hash_of data),
           s\<lparr>files := (files s)(p \<mapsto> stored objType data),
             calls := calls s @ [MkdirAll (filepath_Dir p), WriteFile p (stored objType data)]\<rparr>))"
  using assms
  by (simp add: writeObject_def os_MkdirAll_def os_WriteFile_def hash_of_def stored_def Let_def)

lemma writeObject_success:
  assumes "json_Marshal obj = Inr data" and "writeObject r objType obj s = (Inr h, s')"
  shows "h = hash_of data"
    and "files s' = (files s)(objectPath r h \<mapsto> stored objType data)"
    and "denied s' = denied s"
    and "\<not> denied s (objectPath r h)" and "\<not> denied s (filepath_Dir (objectPath r h))"
    and "calls s' = calls s @ [MkdirAll (filepath_Dir (objectPath r h)),
                               WriteFile (objectPath r h) (stored objType data)]"
  using assms(2) unfolding writeObject_cases [OF assms(1)] Let_def
  by (auto split: if_splits)

text \<open>
  Claim C6. Reading back a freshly stored object returns the kind and the payload that
  were stored, and storing the same kind and payload again returns the same hash. The
  payload is the JSON text of the object; the kind is a tag such as \<open>blob\<close>, \<open>tree\<close>,
  \<open>commit\<close> or \<open>asset\<close> (a non-empty word of printable ASCII characters), and the
  payload is shorter than \<open>2^63\<close> bytes, as every Go slice is.
\<close>

theorem put_get_roundtrip:
  assumes "plain_word objType"
    and "json_Marshal obj = Inr data" and "length data < 9223372036854775808"
    and "WriteObject r objType obj s = (Inr h, s')"
  shows "ReadObject r h s' = Inr (objType, data) \<and>
         fst (WriteObject r objType obj s') = Inr h"
proof -
  from assms(4) have w: "writeObject r objType obj s = (Inr h, s')"
    by (simp add: WriteObject_def)
  note ws = writeObject_success [OF assms(2) w]
  have f: "files s' (objectPath r h) = Some (fmt_Sprintf_header objType (int (length data)) @ data)"
    by (simp add: ws(2) stored_def)
  have d: "\<not> denied s' (objectPath r h)"
    by (simp add: ws(3) ws(4))
  have l: "2 \<le> length h"
    by (simp add: ws(1) length_hash_of)
  have "readObject r h s' = Inr (objType, data)"
    using readObject_header [OF assms(1) assms(3) f d l] by simp
  moreover have "fst (writeObject r objType obj s') = Inr h"
    using ws(1) ws(3) ws(4) ws(5)
    by (simp add: writeObject_cases [OF assms(2)] Let_def)
  ultimately show ?thesis
    by (simp add: ReadObject_def WriteObject_def)
qed

subsection \<open>Three digests, computed\<close>

lemma replicate_numeral_unfold: "replicate (numeral k) x = x # replicate (pred_numeral k) x"
  by (simp add: numeral_eq_Suc)

lemmas sha256_eval = hash_of_def sha256_Sum256_def hex_EncodeToString_def hexdigit_def pad_def
  be_bytes4_def be_bytes8_def blocks.simps block_def H256_def K256_def add32_def rotr_def
  Ch_def Maj_def bsig0_def bsig1_def ssig0_def ssig1_def replicate_numeral_unfold

lemma hash_of_empty_tree:
  \<open>hash_of ''{"entries":[]}'' = ''d801aa1fb7ddcc330a5e3173372ea6af4a3d08ec58074478e85aa5603e926658''\<close>
  by (simp add: sha256_eval)

lemma hash_of_empty_tree_with_header:
  \<open>hash_of (''tree 14'' @ [CHR 0x00] @ ''{"entries":[]}'') =
     ''f26b2076981c76a305362014b5fb61e549b66a8dfc65bf075064f6d3442d6020''\<close>
  by (simp add: sha256_eval)

lemma hash_of_flipped_tree:
  \<open>hash_of ''{"entries":[]|'' = ''0ef1b9071e64cbd7c0ac1294aa4deb57630d6170228fa7bad1ceb7dbaa419228''\<close>
  by (simp add: sha256_eval)

lemma json_Marshal_empty_tree:
  \<open>json_Marshal (TreeObj \<lparr>Entries = []\<rparr>) = Inr ''{"entries":[]}''\<close>
  by (simp add: json_Tree_def)

lemma plain_word_tree: "plain_word ''tree''"
  by (simp add: plain_word_def)

lemma dec_digits_14: "dec_digits 14 = ''14''"
  by (simp add: dec_digits.simps digit_char_def)

lemma stored_empty_tree:
  \<open>stored ''tree'' ''{"entries":[]}'' = ''tree 14'' @ [CHR 0x00] @ ''{"entries":[]}''\<close>
  by (simp add: stored_def fmt_Sprintf_header_def strconv_Itoa_def dec_digits_14)

lemma writeObject_world0:
  assumes "json_Marshal obj = Inr data"
  shows "writeObject repo0 objType obj world0 =
    (Inr (hash_of data),
     world0\<lparr>files := [objectPath repo0 (hash_of data) \<mapsto> stored objType data],
            calls := [MkdirAll (filepath_Dir (objectPath repo0 (hash_of data))),
                      WriteFile (objectPath repo0 (hash_of data)) (stored objType data)]\<rparr>)"
  by (simp add: writeObject_cases [OF assms] Let_def world0_def)

text \<open>The empty tree, stored in the fresh world and read back.\<close>

theorem put_get_roundtrip_witness:
  \<open>plain_word ''tree'' \<and>
   fst (WriteObject repo0 ''tree'' (TreeObj \<lparr>Entries = []\<rparr>) world0) = Inr (hash_of ''{"entries":[]}'') \<and>
   ReadObject repo0 (hash_of ''{"entries":[]}'')
     (snd (WriteObject repo0 ''tree'' (TreeObj \<lparr>Entries = []\<rparr>) world0)) = Inr (''tree'', ''{"entries":[]}'') \<and>
   fst (WriteObject repo0 ''tree'' (TreeObj \<lparr>Entries = []\<rparr>)
     (snd (WriteObject repo0 ''tree'' (TreeObj \<lparr>Entries = []\<rparr>) world0))) = Inr (hash_of ''{"entries":[]}'')\<close>
proof -
  let ?obj = "TreeObj \<lparr>Entries = []\<rparr>"
  let ?w = "WriteObject repo0 ''tree'' ?obj world0"
  have l: \<open>length ''{"entries":[]}'' < 9223372036854775808\<close>
    by simp
  have f: \<open>fst ?w = Inr (hash_of ''{"entries":[]}'')\<close>
    by (simp add: WriteObject_def writeObject_world0 [OF json_Marshal_empty_tree])
  then have w: \<open>?w = (Inr (hash_of ''{"entries":[]}''), snd ?w)\<close>
    by (simp add: prod_eq_iff)
  from put_get_roundtrip [OF plain_word_tree json_Marshal_empty_tree l w] plain_word_tree f
  show ?thesis by simp
qed

subsection \<open>Reading does not check the hash\<close>

text \<open>
  Claim C1 as stated fails. The empty tree is stored; the last byte of its payload on
  disk is changed from \<open>}\<close> to \<open>|\<close> (the length stays 14); reading the object by its hash
  succeeds and returns the changed bytes, although their digest is not the hash asked for.
\<close>

theorem readObject_returns_flipped_payload:
  \<open>fst (WriteObject repo0 ''tree'' (TreeObj \<lparr>Entries = []\<rparr>) world0) = Inr (hash_of ''{"entries":[]}'') \<and>
   files (snd (WriteObject repo0 ''tree'' (TreeObj \<lparr>Entries = []\<rparr>) world0))
     (objectPath repo0 (hash_of ''{"entries":[]}'')) = Some (''tree 14'' @ [CHR 0x00] @ ''{"entries":[]}'') \<and>
   ReadObject repo0 (hash_of ''{"entries":[]}'')
     ((snd (WriteObject repo0 ''tree'' (TreeObj \<lparr>Entries = []\<rparr>) world0))
        \<lparr>files := (files (snd (WriteObject repo0 ''tree'' (TreeObj \<lparr>Entries = []\<rparr>) world0)))
           (objectPath repo0 (hash_of ''{"entries":[]}'') \<mapsto> ''tree 14'' @ [CHR 0x00] @ ''{"entries":[]|'')\<rparr>)
     = Inr (''tree'', ''{"entries":[]|'') \<and>
   hash_of ''{"entries":[]|'' \<noteq> hash_of ''{"entries":[]}''\<close>
proof -
  let ?h = \<open>hash_of ''{"entries":[]}''\<close>
  let ?s1 = "snd (WriteObject repo0 ''tree'' (TreeObj \<lparr>Entries = []\<rparr>) world0)"
  let ?s2 = \<open>?s1\<lparr>files := (files ?s1)(objectPath repo0 ?h \<mapsto> ''tree 14'' @ [CHR 0x00] @ ''{"entries":[]|'')\<rparr>\<close>
  have a: "fst (WriteObject repo0 ''tree'' (TreeObj \<lparr>Entries = []\<rparr>) world0) = Inr ?h"
    by (simp add: WriteObject_def writeObject_world0 [OF json_Marshal_empty_tree])
  have b: \<open>files ?s1 (objectPath repo0 ?h) = Some (''tree 14'' @ [CHR 0x00] @ ''{"entries":[]}'')\<close>
    by (simp add: WriteObject_def writeObject_world0 [OF json_Marshal_empty_tree] stored_empty_tree)
  have f: \<open>files ?s2 (objectPath repo0 ?h) = Some (fmt_Sprintf_header ''tree'' (int 14) @ ''{"entries":[]|'')\<close>
    by (simp add: fmt_Sprintf_header_def strconv_Itoa_def dec_digits_14)
  have d: "\<not> denied ?s2 (objectPath repo0 ?h)"
    by (simp only: WriteObject_def writeObject_world0 [OF json_Marshal_empty_tree] snd_conv)
       (simp add: world0_def)
  have l: "2 \<le> length ?h"
    by (simp add: length_hash_of)
  have c: \<open>ReadObject repo0 ?h ?s2 = Inr (''tree'', ''{"entries":[]|'')\<close>
    using readObject_header [OF plain_word_tree _ f d l] by (simp add: ReadObject_def)
  have e: \<open>hash_of ''{"entries":[]|'' \<noteq> ?h\<close>
    by (simp add: hash_of_flipped_tree hash_of_empty_tree)
  from a b c e show ?thesis by blast
qed

text \<open>
  Claim C1, amended. Reading an object back does not re-derive the content hash: the
  hash \<open>h\<close> only names the file, and nothing in the hypotheses relates it to the bytes
  found there. The read fails when the file holds no zero byte, when the header before
  the first zero byte does not parse as a kind and a size, and when the declared size
  differs from the length of the payload; otherwise it returns the kind and the payload
  found in the file. The last part is the case of a stored object, whose header is the
  one \<open>writeObject\<close> wrote, with any payload after it.
\<close>

theorem readObject_checks_size_only:
  assumes "2 \<le> length h" and "\<not> denied s (objectPath r h)"
    and "files s (objectPath r h) = Some data"
  shows "(CHR 0x00 \<notin> set data \<longrightarrow>
            ReadObject r h s = Inl (Errorf ''invalid object format: no null separator found'')) \<and>
         (\<forall>hdr payload e.
            data = hdr @ CHR 0x00 # payload \<and> CHR 0x00 \<notin> set hdr \<and> fmt_Sscanf_s_d hdr = Inl e \<longrightarrow>
            ReadObject r h s = Inl (Wrapf ''failed to parse object header'' e)) \<and>
         (\<forall>hdr payload objType n.
            data = hdr @ CHR 0x00 # payload \<and> CHR 0x00 \<notin> set hdr \<and>
            fmt_Sscanf_s_d hdr = Inr (objType, n) \<longrightarrow>
            ReadObject r h s =
              (if int (length payload) = n then Inr (objType, payload)
               else Inl (Errorf (''object size mismatch: expected '' @ strconv_Itoa n @
                      '', got '' @ strconv_Itoa (int (length payload)))))) \<and>
         (\<forall>objType n payload.
            plain_word objType \<and> n < 9223372036854775808 \<and>
            data = fmt_Sprintf_header objType (int n) @ payload \<longrightarrow>
            ReadObject r h s =
              (if n = length payload then Inr (objType, payload)
               else Inl (Errorf (''object size mismatch: expected '' @ strconv_Itoa (int n) @
                      '', got '' @ strconv_Itoa (int (length payload))))))"
proof (intro conjI allI impI)
  assume "CHR 0x00 \<notin> set data"
  then show "ReadObject r h s = Inl (Errorf ''invalid object format: no null separator found'')"
    unfolding ReadObject_def by (rule readObject_no_separator [OF assms])
next
  fix hdr payload e
  assume a: "data = hdr @ CHR 0x00 # payload \<and> CHR 0x00 \<notin> set hdr \<and> fmt_Sscanf_s_d hdr = Inl e"
  then have f: "files s (objectPath r h) = Some (hdr @ CHR 0x00 # payload)"
    using assms(3) by simp
  from a have nn: "CHR 0x00 \<notin> set hdr" and p: "fmt_Sscanf_s_d hdr = Inl e"
    by simp_all
  show "ReadObject r h s = Inl (Wrapf ''failed to parse object header'' e)"
    unfolding ReadObject_def
    by (simp only: readObject_separated [OF assms(1,2) f nn] p sum.case)
next
  fix hdr payload objType n
  assume a: "data = hdr @ CHR 0x00 # payload \<and> CHR 0x00 \<notin> set hdr \<and>
             fmt_Sscanf_s_d hdr = Inr (objType, n)"
  then have f: "files s (objectPath r h) = Some (hdr @ CHR 0x00 # payload)"
    using assms(3) by simp
  from a have nn: "CHR 0x00 \<notin> set hdr" and p: "fmt_Sscanf_s_d hdr = Inr (objType, n)"
    by simp_all
  show "ReadObject r h s =
          (if int (length payload) = n then Inr (objType, payload)
           else Inl (Errorf (''object size mismatch: expected '' @ strconv_Itoa n @
                  '', got '' @ strconv_Itoa (int (length payload)))))"
    unfolding ReadObject_def
    by (simp only: readObject_separated [OF assms(1,2) f nn] p sum.case prod.case)
next
  fix objType n payload
  assume a: "plain_word objType \<and> n < 9223372036854775808 \<and>
             data = fmt_Sprintf_header objType (int n) @ payload"
  then have f: "files s (objectPath r h) = Some (fmt_Sprintf_header objType (int n) @ payload)"
    using assms(3) by simp
  from a have w: "plain_word objType" and n: "n < 9223372036854775808"
    by simp_all
  show "ReadObject r h s =
          (if n = length payload then Inr (objType, payload)
           else Inl (Errorf (''object size mismatch: expected '' @ strconv_Itoa (int n) @
                  '', got '' @ strconv_Itoa (int (length payload)))))"
    unfolding ReadObject_def by (rule readObject_header [OF w n f assms(2,1)])
qed

text \<open>
  Four files under the name \<open>00ff\<close>, which is the hash of none of them: one without a
  zero byte, one whose header has no size, one whose header is right, one whose header
  declares a byte too many.
\<close>

theorem readObject_checks_size_only_witness:
  "ReadObject repo0 ''00ff'' (world0\<lparr>files := [objectPath repo0 ''00ff'' \<mapsto> ''blob 2 hi'']\<rparr>)
     = Inl (Errorf ''invalid object format: no null separator found'') \<and>
   ReadObject repo0 ''00ff'' (world0\<lparr>files := [objectPath repo0 ''00ff'' \<mapsto> ''blob x'' @ [CHR 0x00] @ ''hi'']\<rparr>)
     = Inl (Wrapf ''failed to parse object header'' (Errorf ''expected integer'')) \<and>
   ReadObject repo0 ''00ff'' (world0\<lparr>files := [objectPath repo0 ''00ff'' \<mapsto> ''blob 2'' @ [CHR 0x00] @ ''hi'']\<rparr>)
     = Inr (''blob'', ''hi'') \<and>
   ReadObject repo0 ''00ff'' (world0\<lparr>files := [objectPath repo0 ''00ff'' \<mapsto> ''blob 3'' @ [CHR 0x00] @ ''hi'']\<rparr>)
     = Inl (Errorf ''object size mismatch: expected 3, got 2'')"
proof -
  let ?p = "objectPath repo0 ''00ff''"
  let ?s = "\<lambda>data. world0\<lparr>files := [?p \<mapsto> data]\<rparr>"
  have l: "2 \<le> length ''00ff''" by simp
  have nd: "\<not> denied (?s data) ?p" for data
    by (simp add: world0_def)
  have f: "files (?s data) ?p = Some data" for data
    by simp
  note t = readObject_checks_size_only [OF l nd f]
  have pw: "plain_word ''blob''"
    by (simp add: plain_word_def)
  have d2: "dec_digits 2 = ''2''" and d3: "dec_digits 3 = ''3''"
    by (simp_all add: dec_digits.simps digit_char_def)
  have a: "ReadObject repo0 ''00ff'' (?s ''blob 2 hi'')
             = Inl (Errorf ''invalid object format: no null separator found'')"
    using t [of "''blob 2 hi''", THEN conjunct1] by simp
  have px: "fmt_Sscanf_s_d ''blob x'' = Inl (Errorf ''expected integer'')"
    by (simp add: fmt_Sscanf_s_d_def scanInt_def utf8_rune_def isSpace_def is_digit_rune_def)
  have b: "ReadObject repo0 ''00ff'' (?s (''blob x'' @ [CHR 0x00] @ ''hi''))
             = Inl (Wrapf ''failed to parse object header'' (Errorf ''expected integer''))"
    using t [of "''blob x'' @ [CHR 0x00] @ ''hi''", THEN conjunct2, THEN conjunct1,
             THEN spec, THEN spec, THEN spec, of "''blob x''" "''hi''" "Errorf ''expected integer''"]
      px
    by simp
  have c: "ReadObject repo0 ''00ff'' (?s (''blob 2'' @ [CHR 0x00] @ ''hi'')) = Inr (''blob'', ''hi'')"
    using t [of "''blob 2'' @ [CHR 0x00] @ ''hi''", THEN conjunct2, THEN conjunct2, THEN conjunct2,
             THEN spec, THEN spec, THEN spec, of "''blob''" 2 "''hi''"] pw
    by (simp add: fmt_Sprintf_header_def strconv_Itoa_def d2)
  have d: "ReadObject repo0 ''00ff'' (?s (''blob 3'' @ [CHR 0x00] @ ''hi''))
             = Inl (Errorf ''object size mismatch: expected 3, got 2'')"
    using t [of "''blob 3'' @ [CHR 0x00] @ ''hi''", THEN conjunct2, THEN conjunct2, THEN conjunct2,
             THEN spec, THEN spec, THEN spec, of "''blob''" 3 "''hi''"] pw
    by (simp add: fmt_Sprintf_header_def strconv_Itoa_def d2 d3)
  from a b c d show ?thesis by simp
qed

subsection \<open>What is hashed\<close>

text \<open>
  Claim C2, amended. The hash \<open>writeObject\<close> returns is the SHA-256 digest, in
  hexadecimal, of the JSON payload alone: the kind tag and the length, which make up the
  header of the stored file, are not part of the hashed input, so the same object stored
  under any other kind gets the same hash.
\<close>

theorem writeObject_hash_is_payload_digest:
  assumes "json_Marshal obj = Inr data" and "WriteObject r objType obj s = (Inr h, s')"
  shows "h = hex_EncodeToString (sha256_Sum256 data) \<and>
         fst (WriteObject r objType' obj s) = Inr h"
proof -
  from assms(2) have w: "writeObject r objType obj s = (Inr h, s')"
    by (simp add: WriteObject_def)
  note ws = writeObject_success [OF assms(1) w]
  have "fst (writeObject r objType' obj s) = Inr h"
    using ws(1) ws(4) ws(5) by (simp add: writeObject_cases [OF assms(1)] Let_def)
  with ws(1) show ?thesis
    by (simp add: WriteObject_def hash_of_def)
qed

theorem writeObject_hash_is_payload_digest_witness:
  \<open>fst (WriteObject repo0 ''tree'' (TreeObj \<lparr>Entries = []\<rparr>) world0)
     = Inr (hex_EncodeToString (sha256_Sum256 ''{"entries":[]}'')) \<and>
   fst (WriteObject repo0 ''commit'' (TreeObj \<lparr>Entries = []\<rparr>) world0)
     = Inr (hex_EncodeToString (sha256_Sum256 ''{"entries":[]}''))\<close>
proof -
  let ?w = "WriteObject repo0 ''tree'' (TreeObj \<lparr>Entries = []\<rparr>) world0"
  have f: \<open>fst ?w = Inr (hash_of ''{"entries":[]}'')\<close>
    by (simp add: WriteObject_def writeObject_world0 [OF json_Marshal_empty_tree])
  then have w: \<open>?w = (Inr (hash_of ''{"entries":[]}''), snd ?w)\<close>
    by (simp add: prod_eq_iff)
  have \<open>fst (WriteObject repo0 ''commit'' (TreeObj \<lparr>Entries = []\<rparr>) world0)
          = Inr (hash_of ''{"entries":[]}'')\<close>
    using writeObject_hash_is_payload_digest [OF json_Marshal_empty_tree w, of "''commit''"]
    by (rule conjunct2)
  with f show ?thesis
    by (simp only: hash_of_def simp_thms)
qed

text \<open>
  Claim C2 as stated fails. The hash returned for the empty tree is the digest of the
  14 bytes of its JSON text; the digest of the canonical encoding
  \<open>tree 14\<close>, zero byte, payload is a different string.
\<close>

theorem writeObject_hash_ignores_header:
  \<open>fst (WriteObject repo0 ''tree'' (TreeObj \<lparr>Entries = []\<rparr>) world0)
     = Inr ''d801aa1fb7ddcc330a5e3173372ea6af4a3d08ec58074478e85aa5603e926658'' \<and>
   hex_EncodeToString (sha256_Sum256 (''tree 14'' @ [CHR 0x00] @ ''{"entries":[]}''))
     = ''f26b2076981c76a305362014b5fb61e549b66a8dfc65bf075064f6d3442d6020''\<close>
proof -
  have "fst (WriteObject repo0 ''tree'' (TreeObj \<lparr>Entries = []\<rparr>) world0)
          = Inr ''d801aa1fb7ddcc330a5e3173372ea6af4a3d08ec58074478e85aa5603e926658''"
    by (simp only: WriteObject_def writeObject_world0 [OF json_Marshal_empty_tree] fst_conv
          hash_of_empty_tree)
  moreover have \<open>hex_EncodeToString (sha256_Sum256 (''tree 14'' @ [CHR 0x00] @ ''{"entries":[]}''))
     = ''f26b2076981c76a305362014b5fb61e549b66a8dfc65bf075064f6d3442d6020''\<close>
    using hash_of_empty_tree_with_header by (simp only: hash_of_def)
  ultimately show ?thesis by (rule conjI)
qed

end
